theory Spec2Isabelle
  imports Main "HOL-Library.Char_ord" "HOL-Library.List_Lexorder"
begin

section \<open>Garage door server: data model\<close>

text \<open>
  A shallow embedding of \<^verbatim>\<open>garage_door/garage_door_server.py\<close>. Door names, actions and
  messages are Python \<^verbatim>\<open>str\<close> values, modelled as \<^typ>\<open>string\<close>. The two module-level
  dictionaries are association lists in the order of the source's literals, read with
  \<^const>\<open>map_of\<close>.
\<close>

definition RELAY_PIN_MAPPING :: "(string \<times> nat) list" where
  "RELAY_PIN_MAPPING = [(''LEFT'', 27), (''RIGHT'', 22)]"

definition GARAGE_SENSOR_MAPPING :: "(string \<times> nat) list" where
  "GARAGE_SENSOR_MAPPING = [(''LEFT'', 25), (''RIGHT'', 16)]"

text \<open>
  \<^verbatim>\<open>SORTED_KEYS = [k for k in sorted(RELAY_PIN_MAPPING)]\<close>: the keys of the dictionary, sorted
  by Python's string order (lexicographic on code points), which is the order of
  \<^typ>\<open>char list\<close> here.
\<close>

definition SORTED_KEYS :: "string list" where
  "SORTED_KEYS = sort (map fst RELAY_PIN_MAPPING)"

subsection \<open>JSON documents and Python exceptions\<close>

text \<open>
  The values that \<^verbatim>\<open>json.loads\<close> returns and \<^verbatim>\<open>json.dumps\<close> accepts. A dictionary keeps
  its insertion order. Numbers are integers: a non-integer number behaves like an integer in
  every operation below (it is not subscriptable and it is not equal to a string).
\<close>

datatype json =
    JNull
  | JBool bool
  | JNum int
  | JStr string
  | JArr "json list"
  | JObj "(string \<times> json) list"

datatype pyexc =
    KeyError string
  | TypeError
  | NameError string
  | UnicodeDecodeError
  | JSONDecodeError
  | RequestException

subsection \<open>Hardware, clock and library calls\<close>

text \<open>
  What the program does to the outside, in order. \<^verbatim>\<open>GPIO.HIGH\<close> is 1 and \<^verbatim>\<open>GPIO.LOW\<close> is 0.
  The only \<^verbatim>\<open>GPIO.output\<close> calls of the source are the two commented-out lines 76 and 78 of
  \<^verbatim>\<open>control_garage\<close>, so no function below emits \<open>GpioOutput\<close>; the constructor is there to
  count relay pulses in a trace.
\<close>

datatype event =
    GpioOutput nat int
  | Sleep
  | Print string
  | PrintExc pyexc
  | PrintBytes string string
  | PrintJson string json
  | HttpGet json

text \<open>
  The state the handlers run in: the level \<^verbatim>\<open>GPIO.input\<close> reads on each pin, and the
  trace of effects so far.
\<close>

record world =
  pins :: "nat \<Rightarrow> int"
  trace :: "event list"

text \<open>
  What is outside the repository: the configured host name, the formatted local time at the
  n-th reading of the clock within a call, whether \<^verbatim>\<open>time.sleep\<close> raises, and the library
  functions \<^verbatim>\<open>bytes.decode\<close>, \<^verbatim>\<open>json.loads\<close>, \<^verbatim>\<open>json.dumps\<close> and \<^verbatim>\<open>requests.get\<close>.
\<close>

record env =
  hostname :: string
  clock :: "nat \<Rightarrow> string"
  sleep_raises :: bool
  decode_utf8 :: "string \<Rightarrow> pyexc + string"
  json_loads :: "string \<Rightarrow> pyexc + json"
  json_dumps :: "json \<Rightarrow> string"
  requests_get :: "json \<Rightarrow> pyexc option"

definition emit :: "event \<Rightarrow> world \<Rightarrow> world" where
  "emit e w = w\<lparr>trace := trace w @ [e]\<rparr>"

text \<open>
  A relay pulse drives the relay pin high and then low; the pulses on a pin are counted by
  the writes of \<^verbatim>\<open>GPIO.HIGH\<close> to it.
\<close>

definition relay_pulses :: "nat \<Rightarrow> event list \<Rightarrow> nat" where
  "relay_pulses pin tr = length (filter (\<lambda>e. e = GpioOutput pin 1) tr)"

section \<open>Status and control\<close>

text \<open>
  \<^verbatim>\<open>get_garage_status\<close>: the \<^verbatim>\<open>KeyError\<close> of the dictionary lookup is the first branch.
\<close>

definition get_garage_status :: "world \<Rightarrow> string \<Rightarrow> string \<times> bool" where
  "get_garage_status w garage_name =
     (case map_of GARAGE_SENSOR_MAPPING garage_name of
        None \<Rightarrow> (''INVALID GARAGE NAME'', True)
      | Some pin \<Rightarrow>
          (let pin_result = pins w pin in
           if pin_result = 0 then (''CLOSED'', False)
           else if pin_result = 1 then (''OPEN'', False)
           else (''UNKNOWN'', True)))"

text \<open>
  \<^verbatim>\<open>control_garage\<close>. The two early returns leave the world as it is. In the last branch
  the body of the \<^verbatim>\<open>try\<close> is \<^verbatim>\<open>time.sleep(0.5)\<close> alone; \<^verbatim>\<open>relay_pin\<close> is looked up (the name
  is a key, by the first check) and not used.
\<close>

definition control_garage :: "env \<Rightarrow> string \<Rightarrow> string \<Rightarrow> world \<Rightarrow> (string \<times> bool) \<times> world" where
  "control_garage e garage_name action w =
     (if map_of RELAY_PIN_MAPPING garage_name = None then ((''INVALID GARAGE_NAME'', True), w)
      else if \<not> List.member [''OPEN'', ''CLOSE''] action then ((''INVALID ACTION'', True), w)
      else
        (let current_garage_status = fst (get_garage_status w garage_name);
             (message, action_error, w1) =
               (if current_garage_status = ''OPEN'' \<and> action = ''OPEN''
                then (''Trying to open garage that is already open'', True, w)
                else if current_garage_status = ''CLOSED'' \<and> action = ''CLOSE''
                then (''Trying to close garage that is already closed'', True, w)
                else if sleep_raises e
                then (''AN ERROR OCCURED WHILE TRIGGERING THE RELAY'', True, emit Sleep w)
                else (''TRIGGERED '' @ garage_name @ '' GARAGE TO '' @ action
                        @ ''. OLD POSITION: '' @ current_garage_status, False, emit Sleep w))
         in ((message, action_error), if action_error then emit (Print message) w1 else w1)))"

subsection \<open>Python strings and dictionaries\<close>

text \<open>
  \<^verbatim>\<open>str.lower\<close> and \<^verbatim>\<open>str.capitalize\<close> on the ASCII letters. Python also changes the case
  of letters outside ASCII; none of them lower-cases to an ASCII letter, so the comparison
  with \<^verbatim>\<open>'all'\<close> below is the one Python makes.
\<close>

definition lower_char :: "char \<Rightarrow> char" where
  "lower_char c =
     (case map_of (zip ''ABCDEFGHIJKLMNOPQRSTUVWXYZ'' ''abcdefghijklmnopqrstuvwxyz'') c of
        Some l \<Rightarrow> l
      | None \<Rightarrow> c)"

definition upper_char :: "char \<Rightarrow> char" where
  "upper_char c =
     (case map_of (zip ''abcdefghijklmnopqrstuvwxyz'' ''ABCDEFGHIJKLMNOPQRSTUVWXYZ'') c of
        Some u \<Rightarrow> u
      | None \<Rightarrow> c)"

definition str_lower :: "string \<Rightarrow> string" where
  "str_lower s = map lower_char s"

definition capitalize :: "string \<Rightarrow> string" where
  "capitalize s = (case s of [] \<Rightarrow> [] | c # cs \<Rightarrow> upper_char c # map lower_char cs)"

text \<open>
  \<^verbatim>\<open>d[k] = v\<close> on a dictionary in insertion order: an existing key keeps its place.
\<close>

fun dict_set :: "(string \<times> json) list \<Rightarrow> string \<Rightarrow> json \<Rightarrow> (string \<times> json) list" where
  "dict_set [] k v = [(k, v)]"
| "dict_set ((k', v') # d) k v =
     (if k' = k then (k', v) # d else (k', v') # dict_set d k v)"

definition dict_of :: "(string \<times> json) list \<Rightarrow> (string \<times> json) list" where
  "dict_of kvs = foldl (\<lambda>d (k, v). dict_set d k v) [] kvs"

text \<open>
  \<^verbatim>\<open>x[k]\<close> for a string key: \<^verbatim>\<open>KeyError\<close> on a dictionary without the key,
  \<^verbatim>\<open>TypeError\<close> on every other JSON value.
\<close>

definition subscript :: "json \<Rightarrow> string \<Rightarrow> pyexc + json" where
  "subscript x k =
     (case x of
        JObj d \<Rightarrow> (case map_of d k of None \<Rightarrow> Inl (KeyError k) | Some v \<Rightarrow> Inr v)
      | _ \<Rightarrow> Inl TypeError)"

text \<open>\<^verbatim>\<open>k in x\<close>; the source evaluates it on a dictionary only.\<close>

definition has_key :: "json \<Rightarrow> string \<Rightarrow> bool" where
  "has_key x k = (case x of JObj d \<Rightarrow> map_of d k \<noteq> None | _ \<Rightarrow> False)"

text \<open>\<^verbatim>\<open>x[:4]\<close>: the first four items of a string or a list.\<close>

definition slice4 :: "json \<Rightarrow> pyexc + json" where
  "slice4 x =
     (case x of
        JStr s \<Rightarrow> Inr (JStr (take 4 s))
      | JArr xs \<Rightarrow> Inr (JArr (take 4 xs))
      | _ \<Rightarrow> Inl TypeError)"

text \<open>
  \<^verbatim>\<open>r if limit_keys is None else {k: r[k] for k in limit_keys if k in r}\<close>.
\<close>

definition limit_dict :: "(string \<times> json) list \<Rightarrow> string list option \<Rightarrow> (string \<times> json) list" where
  "limit_dict r limit_keys =
     (case limit_keys of
        None \<Rightarrow> r
      | Some ks \<Rightarrow>
          foldl (\<lambda>d k. case map_of r k of None \<Rightarrow> d | Some v \<Rightarrow> dict_set d k v) [] ks)"

section \<open>Response formatting\<close>

text \<open>
  The body of the loop of \<^verbatim>\<open>get_garage_json_status\<close> for one door; \<open>i\<close> counts the
  readings of the clock.
\<close>

definition one_response :: "env \<Rightarrow> world \<Rightarrow> string list option \<Rightarrow> nat \<Rightarrow> string \<Rightarrow> (string \<times> json) list" where
  "one_response e w limit_keys i one_garage =
     (let (garage_status, error) = get_garage_status w one_garage in
      limit_dict
        (dict_of
          [(''plugin_output'', JStr (''Garage is '' @ garage_status)),
           (''service_description'', JStr (capitalize one_garage @ '' Garage Status'')),
           (''hostname'', JStr (hostname e)),
           (''return_code'', JStr (if garage_status = ''CLOSED'' then ''0'' else ''2'')),
           (''garage_name'', JStr one_garage),
           (''status_time'', JStr (clock e i)),
           (''status'', JStr garage_status),
           (''error'', JBool error)])
        limit_keys)"

fun status_loop :: "env \<Rightarrow> world \<Rightarrow> string list option \<Rightarrow> nat \<Rightarrow> string list \<Rightarrow> (string \<times> json) list list" where
  "status_loop e w limit_keys i [] = []"
| "status_loop e w limit_keys i (one_garage # rest) =
     one_response e w limit_keys i one_garage # status_loop e w limit_keys (Suc i) rest"

text \<open>The list \<^verbatim>\<open>response\<close> that \<^verbatim>\<open>get_garage_json_status\<close> hands to \<^verbatim>\<open>json.dumps\<close>.\<close>

definition status_response :: "env \<Rightarrow> world \<Rightarrow> string \<Rightarrow> string list option \<Rightarrow> (string \<times> json) list list" where
  "status_response e w garage_name limit_keys =
     status_loop e w limit_keys 0
       (if str_lower garage_name = ''all'' then SORTED_KEYS else [garage_name])"

definition get_garage_json_status :: "env \<Rightarrow> world \<Rightarrow> string \<Rightarrow> string list option \<Rightarrow> string" where
  "get_garage_json_status e w garage_name limit_keys =
     json_dumps e (JArr (map JObj (status_response e w garage_name limit_keys)))"

definition garage_control_json :: "env \<Rightarrow> string \<Rightarrow> string \<Rightarrow> string list option \<Rightarrow> world \<Rightarrow> string \<times> world" where
  "garage_control_json e garage_name current_status limit_keys w =
     (let ((message, error), w') = control_garage e garage_name current_status w;
          response = dict_of
            [(''status_time'', JStr (clock e 0)),
             (''status'', JStr message),
             (''error'', JBool error)]
      in (json_dumps e (JObj (limit_dict response limit_keys)), w'))"

section \<open>The webhook\<close>

text \<open>
  An exception raised while a value is computed leaves the function at once, with the world
  as it is then; otherwise the rest of the body runs on the value.
\<close>

definition or_raise :: "pyexc + 'a \<Rightarrow> world \<Rightarrow> ('a \<Rightarrow> (pyexc + 'b) \<times> world) \<Rightarrow> (pyexc + 'b) \<times> world" where
  "or_raise r w k = (case r of Inl x \<Rightarrow> (Inl x, w) | Inr v \<Rightarrow> k v)"

text \<open>
  \<^verbatim>\<open>process_sns_message\<close>. The name \<^verbatim>\<open>response_keys\<close> is read in the \<^verbatim>\<open>STATUS\<close> and
  \<^verbatim>\<open>CONTROL\<close> branches and bound nowhere in the module, so evaluating the arguments of the
  call raises \<^verbatim>\<open>NameError\<close> before \<^verbatim>\<open>get_garage_json_status\<close> or \<^verbatim>\<open>garage_control_json\<close>
  is entered. In the last branch \<^verbatim>\<open>return_message\<close> is assigned and never read: the
  \<^verbatim>\<open>queue.send_message\<close> call is commented out. The dictionary \<^verbatim>\<open>response\<close> is what
  the function prints; it returns \<^verbatim>\<open>None\<close>.
\<close>

definition process_sns_message :: "env \<Rightarrow> json \<Rightarrow> world \<Rightarrow> (pyexc + unit) \<times> world" where
  "process_sns_message e data w =
     or_raise (subscript data ''MessageId'') w (\<lambda>message_id.
     or_raise (subscript data ''Message'') w (\<lambda>m.
     or_raise (case m of JStr s \<Rightarrow> json_loads e s | _ \<Rightarrow> Inl TypeError) w (\<lambda>raw_message.
     or_raise (subscript raw_message ''type'') w (\<lambda>action_type.
     or_raise (subscript raw_message ''garage_name'') w (\<lambda>garage_name.
       if action_type = JStr ''STATUS'' then (Inl (NameError ''response_keys''), w)
       else if action_type = JStr ''CONTROL'' then
         or_raise (subscript raw_message ''current_status'') w (\<lambda>current_status.
           (Inl (NameError ''response_keys''), w))
       else
         (let return_message =
                dict_of [(''status'', JStr ''Invalid action passed''), (''error'', JBool True)]
          in or_raise (slice4 message_id) w (\<lambda>i.
               (let response = dict_set [] ''id'' i
                in (Inr (), emit (PrintJson ''TEST publishing {}'' (JObj response)) w)))))))))"

text \<open>
  \<^verbatim>\<open>SNSCallbackResource.post\<close> on the request body. The \<^verbatim>\<open>try\<close> covers the decoding of
  the body and nothing else; the \<^verbatim>\<open>else\<close> clause runs outside it.
\<close>

definition post :: "env \<Rightarrow> string \<Rightarrow> world \<Rightarrow> (pyexc + string) \<times> world" where
  "post e request_data w =
     (case (case decode_utf8 e request_data of Inl x \<Rightarrow> Inl x | Inr s \<Rightarrow> json_loads e s) of
        Inl x \<Rightarrow>
          (Inr (''OK'' @ [CHR 0x0A]),
           emit (PrintBytes ''exception parsing {}'' request_data) (emit (PrintExc x) w))
      | Inr data \<Rightarrow>
          or_raise (subscript data ''Type'') w (\<lambda>ty.
            if ty = JStr ''SubscriptionConfirmation'' \<and> has_key data ''SubscribeURL'' then
              or_raise (subscript data ''SubscribeURL'') w (\<lambda>url.
                (let w1 = emit (HttpGet url) (emit (PrintJson ''{}'' url) w)
                 in (case requests_get e url of
                       Some x \<Rightarrow> (Inl x, w1)
                     | None \<Rightarrow> (Inr (''OK'' @ [CHR 0x0A]), w1))))
            else if ty = JStr ''Notification'' then
              (let (r, w1) = process_sns_message e data (emit (PrintJson ''Message is {}'' data) w)
               in or_raise r w1 (\<lambda>u. (Inr (''OK'' @ [CHR 0x0A]), w1)))
            else
              (Inr (''OK'' @ [CHR 0x0A]),
               emit (PrintJson ''Couldnt process message: {}'' data) w)))"

section \<open>An example installation\<close>

text \<open>
  A world where the sensor of \<^verbatim>\<open>LEFT\<close> (pin 25) reads 0 and the sensor of \<^verbatim>\<open>RIGHT\<close>
  (pin 16) reads 1, and an environment whose library functions agree with Python's on the
  texts used in the examples below.
\<close>

definition example_world :: world where
  "example_world = \<lparr>pins = (\<lambda>p. if p = 16 then 1 else 0), trace = []\<rparr>"

definition example_env :: env where
  \<open>example_env =
     \<lparr>hostname = ''garagepi'',
      clock = (\<lambda>n. ''2020-01-01 10:00:00 AM''),
      sleep_raises = False,
      decode_utf8 = (\<lambda>b. if b = [CHR 0xFF] then Inl UnicodeDecodeError else Inr b),
      json_loads = (\<lambda>s.
        if s = ''{"type": "PING", "garage_name": "LEFT"}''
        then Inr (JObj [(''type'', JStr ''PING''), (''garage_name'', JStr ''LEFT'')])
        else if s = ''{"type": "STATUS", "garage_name": "LEFT"}''
        then Inr (JObj [(''type'', JStr ''STATUS''), (''garage_name'', JStr ''LEFT'')])
        else if s = ''{"type": "CONTROL", "garage_name": "LEFT", "current_status": "OPEN"}''
        then Inr (JObj [(''type'', JStr ''CONTROL''), (''garage_name'', JStr ''LEFT''),
                        (''current_status'', JStr ''OPEN'')])
        else if s = ''{"Type": "Notification", "MessageId": "abcdef", "Message": "{bad"}''
        then Inr (JObj [(''Type'', JStr ''Notification''), (''MessageId'', JStr ''abcdef''),
                        (''Message'', JStr ''{bad'')])
        else Inl JSONDecodeError),
      json_dumps = (\<lambda>j. []),
      requests_get = (\<lambda>u. None)\<rparr>\<close>

section \<open>Properties\<close>

lemma sensor_keys_eq_relay_keys:
  "(map_of GARAGE_SENSOR_MAPPING n = None) = (map_of RELAY_PIN_MAPPING n = None)"
  by (simp add: GARAGE_SENSOR_MAPPING_def RELAY_PIN_MAPPING_def)

lemma SORTED_KEYS_value: "SORTED_KEYS = [''LEFT'', ''RIGHT'']"
  by (simp add: SORTED_KEYS_def RELAY_PIN_MAPPING_def)

subsection \<open>Reading the sensor\<close>

text \<open>
  C3. For a registered door, with \<open>pin\<close> its sensor pin, \<^verbatim>\<open>get_garage_status\<close> returns
  \<^verbatim>\<open>('CLOSED', False)\<close> when the pin reads 0, \<^verbatim>\<open>('OPEN', False)\<close> when it reads 1, and
  \<^verbatim>\<open>('UNKNOWN', True)\<close> on every other reading.
\<close>

theorem get_garage_status_reading:
  assumes "map_of GARAGE_SENSOR_MAPPING garage_name = Some pin"
  shows "get_garage_status w garage_name =
           (if pins w pin = 0 then (''CLOSED'', False)
            else if pins w pin = 1 then (''OPEN'', False)
            else (''UNKNOWN'', True))"
  using assms by (simp add: get_garage_status_def Let_def)

theorem get_garage_status_reading_witness:
  "map_of GARAGE_SENSOR_MAPPING ''LEFT'' = Some 25
   \<and> get_garage_status \<lparr>pins = (\<lambda>p. 0), trace = []\<rparr> ''LEFT'' = (''CLOSED'', False)
   \<and> get_garage_status \<lparr>pins = (\<lambda>p. 1), trace = []\<rparr> ''LEFT'' = (''OPEN'', False)
   \<and> get_garage_status \<lparr>pins = (\<lambda>p. 7), trace = []\<rparr> ''LEFT'' = (''UNKNOWN'', True)"
proof -
  have h: "map_of GARAGE_SENSOR_MAPPING ''LEFT'' = Some 25"
    by (simp add: GARAGE_SENSOR_MAPPING_def)
  show ?thesis
    using h get_garage_status_reading [OF h, of "\<lparr>pins = (\<lambda>p. 0), trace = []\<rparr>"]
      get_garage_status_reading [OF h, of "\<lparr>pins = (\<lambda>p. 1), trace = []\<rparr>"]
      get_garage_status_reading [OF h, of "\<lparr>pins = (\<lambda>p. 7), trace = []\<rparr>"]
    by simp
qed

subsection \<open>Rejected requests\<close>

text \<open>
  C4. For a name that is no key of the registry, whatever the action, \<^verbatim>\<open>get_garage_status\<close>
  returns \<^verbatim>\<open>('INVALID GARAGE NAME', True)\<close> and \<^verbatim>\<open>control_garage\<close> returns
  \<^verbatim>\<open>('INVALID GARAGE_NAME', True)\<close>; so the name is checked before the action. For a
  registered door and an action other than \<^verbatim>\<open>OPEN\<close> and \<^verbatim>\<open>CLOSE\<close>, \<^verbatim>\<open>control_garage\<close>
  returns \<^verbatim>\<open>('INVALID ACTION', True)\<close>. Both rejections return the world they were given:
  nothing is driven, slept or printed.
\<close>

theorem invalid_name_or_action_rejected:
  "(map_of RELAY_PIN_MAPPING garage_name = None \<longrightarrow>
      get_garage_status w garage_name = (''INVALID GARAGE NAME'', True)
      \<and> control_garage e garage_name action w = ((''INVALID GARAGE_NAME'', True), w))
   \<and> (map_of RELAY_PIN_MAPPING garage_name \<noteq> None \<and> action \<noteq> ''OPEN'' \<and> action \<noteq> ''CLOSE'' \<longrightarrow>
      control_garage e garage_name action w = ((''INVALID ACTION'', True), w))"
  using sensor_keys_eq_relay_keys [of garage_name]
  by (auto simp add: get_garage_status_def control_garage_def)

theorem invalid_name_or_action_rejected_witness:
  "map_of RELAY_PIN_MAPPING ''MIDDLE'' = None
   \<and> get_garage_status example_world ''MIDDLE'' = (''INVALID GARAGE NAME'', True)
   \<and> control_garage example_env ''MIDDLE'' ''OPEN'' example_world
       = ((''INVALID GARAGE_NAME'', True), example_world)
   \<and> control_garage example_env ''MIDDLE'' ''JUMP'' example_world
       = ((''INVALID GARAGE_NAME'', True), example_world)
   \<and> map_of RELAY_PIN_MAPPING ''LEFT'' \<noteq> None \<and> ''JUMP'' \<noteq> ''OPEN'' \<and> ''JUMP'' \<noteq> ''CLOSE''
   \<and> control_garage example_env ''LEFT'' ''JUMP'' example_world
       = ((''INVALID ACTION'', True), example_world)"
  using invalid_name_or_action_rejected
      [where garage_name = "''MIDDLE''" and action = "''OPEN''" and w = example_world and e = example_env]
    invalid_name_or_action_rejected
      [where garage_name = "''MIDDLE''" and action = "''JUMP''" and w = example_world and e = example_env]
    invalid_name_or_action_rejected
      [where garage_name = "''LEFT''" and action = "''JUMP''" and w = example_world and e = example_env]
  by (simp add: RELAY_PIN_MAPPING_def)

subsection \<open>The idempotency guard\<close>

text \<open>
  C1. For a registered door whose status is \<^verbatim>\<open>OPEN\<close> with the action \<^verbatim>\<open>OPEN\<close>, or
  \<^verbatim>\<open>CLOSED\<close> with the action \<^verbatim>\<open>CLOSE\<close>, \<^verbatim>\<open>control_garage\<close> returns the "already open" or
  "already closed" message with the error flag true; its only effect is to print that
  message, so the pin levels are the same and no relay pulse is added on any pin.
\<close>

theorem control_garage_already_in_target_state:
  assumes "map_of RELAY_PIN_MAPPING garage_name \<noteq> None"
    and "(fst (get_garage_status w garage_name) = ''OPEN'' \<and> action = ''OPEN'')
       \<or> (fst (get_garage_status w garage_name) = ''CLOSED'' \<and> action = ''CLOSE'')"
  shows "control_garage e garage_name action w =
           ((if action = ''OPEN'' then ''Trying to open garage that is already open''
             else ''Trying to close garage that is already closed'', True),
            emit (Print (if action = ''OPEN'' then ''Trying to open garage that is already open''
                         else ''Trying to close garage that is already closed'')) w)
         \<and> pins (snd (control_garage e garage_name action w)) = pins w
         \<and> relay_pulses pin (trace (snd (control_garage e garage_name action w)))
             = relay_pulses pin (trace w)"
  using assms by (auto simp add: control_garage_def emit_def relay_pulses_def)

theorem control_garage_already_in_target_state_witness:
  "map_of RELAY_PIN_MAPPING ''LEFT'' \<noteq> None
   \<and> fst (get_garage_status example_world ''LEFT'') = ''CLOSED''
   \<and> control_garage example_env ''LEFT'' ''CLOSE'' example_world =
        ((''Trying to close garage that is already closed'', True),
         emit (Print ''Trying to close garage that is already closed'') example_world)
   \<and> relay_pulses 27 (trace (snd (control_garage example_env ''LEFT'' ''CLOSE'' example_world))) = 0"
proof -
  have a: "map_of RELAY_PIN_MAPPING ''LEFT'' \<noteq> None"
    by (simp add: RELAY_PIN_MAPPING_def)
  have b: "fst (get_garage_status example_world ''LEFT'') = ''CLOSED''"
    by (simp add: get_garage_status_def GARAGE_SENSOR_MAPPING_def example_world_def)
  show ?thesis
    using a b control_garage_already_in_target_state
        [where garage_name = "''LEFT''" and action = "''CLOSE''" and w = example_world
           and e = example_env and pin = 27]
    by (simp add: example_world_def relay_pulses_def emit_def)
qed

text \<open>
  C10. For a registered door whose sensor reads neither 0 nor 1, and the action \<^verbatim>\<open>OPEN\<close>
  or \<^verbatim>\<open>CLOSE\<close>, \<^verbatim>\<open>control_garage\<close> passes both guards and runs the \<^verbatim>\<open>try\<close> of the last
  branch: when \<^verbatim>\<open>time.sleep\<close> does not raise it returns the error flag false and the
  message with the old position \<^verbatim>\<open>UNKNOWN\<close>; when it raises, the relay error message.
\<close>

theorem control_garage_unknown_status:
  assumes "map_of GARAGE_SENSOR_MAPPING garage_name = Some pin"
    and "pins w pin \<noteq> 0" and "pins w pin \<noteq> 1"
    and "action = ''OPEN'' \<or> action = ''CLOSE''"
  shows "control_garage e garage_name action w =
     (if sleep_raises e
      then ((''AN ERROR OCCURED WHILE TRIGGERING THE RELAY'', True),
            emit (Print ''AN ERROR OCCURED WHILE TRIGGERING THE RELAY'') (emit Sleep w))
      else ((''TRIGGERED '' @ garage_name @ '' GARAGE TO '' @ action
               @ ''. OLD POSITION: UNKNOWN'', False),
            emit Sleep w))"
  using assms sensor_keys_eq_relay_keys [of garage_name]
  by (auto simp add: control_garage_def get_garage_status_def)

theorem control_garage_unknown_status_witness:
  "map_of GARAGE_SENSOR_MAPPING ''LEFT'' = Some 25
   \<and> pins (example_world\<lparr>pins := (\<lambda>p. 3)\<rparr>) 25 \<noteq> 0
   \<and> pins (example_world\<lparr>pins := (\<lambda>p. 3)\<rparr>) 25 \<noteq> 1
   \<and> \<not> sleep_raises example_env
   \<and> control_garage example_env ''LEFT'' ''OPEN'' (example_world\<lparr>pins := (\<lambda>p. 3)\<rparr>) =
       ((''TRIGGERED LEFT GARAGE TO OPEN. OLD POSITION: UNKNOWN'', False),
        emit Sleep (example_world\<lparr>pins := (\<lambda>p. 3)\<rparr>))"
proof -
  have a: "map_of GARAGE_SENSOR_MAPPING ''LEFT'' = Some 25"
    by (simp add: GARAGE_SENSOR_MAPPING_def)
  have b: "pins (example_world\<lparr>pins := (\<lambda>p. 3)\<rparr>) 25 \<noteq> 0"
    "pins (example_world\<lparr>pins := (\<lambda>p. 3)\<rparr>) 25 \<noteq> 1"
    by simp_all
  have c: "\<not> sleep_raises example_env"
    by (simp add: example_env_def)
  show ?thesis
    using a b c control_garage_unknown_status
        [where garage_name = "''LEFT''" and action = "''OPEN''" and pin = 25
           and w = "example_world\<lparr>pins := (\<lambda>p. 3)\<rparr>" and e = example_env]
    by simp
qed

subsection \<open>The relay is never driven\<close>

text \<open>
  Whatever the door, the action and the state, \<^verbatim>\<open>control_garage\<close> adds no relay pulse: the
  two \<^verbatim>\<open>GPIO.output\<close> lines are comments.
\<close>

lemma control_garage_adds_no_pulse:
  "relay_pulses pin (trace (snd (control_garage e garage_name action w)))
     = relay_pulses pin (trace w)"
  by (simp add: control_garage_def emit_def Let_def relay_pulses_def)

text \<open>
  C2, at \<^verbatim>\<open>control_garage('RIGHT', 'CLOSE')\<close> with \<^verbatim>\<open>RIGHT\<close> open: the function returns the
  message of a triggered relay with the error flag false, and all it did was sleep. The
  trace has no pulse on pin 22, the relay of \<^verbatim>\<open>RIGHT\<close>, where the claim has one.
\<close>

theorem control_garage_right_close_no_pulse:
  "control_garage example_env ''RIGHT'' ''CLOSE'' example_world =
     ((''TRIGGERED RIGHT GARAGE TO CLOSE. OLD POSITION: OPEN'', False),
      example_world\<lparr>trace := [Sleep]\<rparr>)
   \<and> relay_pulses 22 (trace (snd (control_garage example_env ''RIGHT'' ''CLOSE'' example_world))) = 0"
  by (simp add: control_garage_def get_garage_status_def RELAY_PIN_MAPPING_def
      GARAGE_SENSOR_MAPPING_def example_world_def example_env_def emit_def relay_pulses_def)

section \<open>Status queries\<close>

subsection \<open>Fields of a record\<close>

lemma map_of_dict_set: "map_of (dict_set d k v) k' = (if k' = k then Some v else map_of d k')"
  by (induction d) auto

lemma map_of_limit_fold:
  "map_of (foldl (\<lambda>d k. case map_of r k of None \<Rightarrow> d | Some v \<Rightarrow> dict_set d k v) acc ks) k' =
     (if k' \<in> set ks \<and> map_of r k' \<noteq> None then map_of r k' else map_of acc k')"
proof (induction ks arbitrary: acc)
  case Nil
  show ?case by simp
next
  case (Cons k ks)
  show ?case
    by (cases "map_of r k") (auto simp add: Cons.IH map_of_dict_set)
qed

text \<open>The filter keeps the value of every key it keeps.\<close>

lemma map_of_limit_dict:
  "map_of (limit_dict r limit_keys) k =
     (case limit_keys of
        None \<Rightarrow> map_of r k
      | Some ks \<Rightarrow> if k \<in> set ks then map_of r k else None)"
  by (cases limit_keys) (auto simp add: limit_dict_def map_of_limit_fold)

lemma one_response_status:
  "map_of (one_response e w None i g) ''status'' = Some (JStr (fst (get_garage_status w g)))"
  by (simp add: one_response_def dict_of_def limit_dict_def case_prod_beta)

lemma one_response_error:
  "map_of (one_response e w None i g) ''error'' = Some (JBool (snd (get_garage_status w g)))"
  by (simp add: one_response_def dict_of_def limit_dict_def case_prod_beta)

lemma one_response_limit:
  "one_response e w limit_keys i g = limit_dict (one_response e w None i g) limit_keys"
  by (simp add: one_response_def limit_dict_def case_prod_beta)

lemma status_loop_member:
  "r \<in> set (status_loop e w limit_keys i gs)
     \<Longrightarrow> \<exists>j g. g \<in> set gs \<and> r = one_response e w limit_keys j g"
  by (induction gs arbitrary: i) fastforce+

lemma get_garage_status_error_iff:
  "snd (get_garage_status w g) =
     (fst (get_garage_status w g) = ''UNKNOWN''
      \<or> fst (get_garage_status w g) = ''INVALID GARAGE NAME'')"
  by (simp add: get_garage_status_def Let_def split: option.splits)

lemma one_response_flag:
  assumes "map_of (one_response e w limit_keys i g) ''status'' = Some s"
    and "map_of (one_response e w limit_keys i g) ''error'' = Some b"
  shows "\<exists>st flag. s = JStr st \<and> b = JBool flag
           \<and> flag = (st = ''UNKNOWN'' \<or> st = ''INVALID GARAGE NAME'')
           \<and> (st = ''CLOSED'' \<or> st = ''OPEN'' \<longrightarrow> \<not> flag)"
proof -
  have s: "s = JStr (fst (get_garage_status w g))"
    using assms(1) one_response_status [of e w i g]
    by (simp add: one_response_limit [of e w limit_keys] map_of_limit_dict
        split: option.splits if_splits)
  have b: "b = JBool (snd (get_garage_status w g))"
    using assms(2) one_response_error [of e w i g]
    by (simp add: one_response_limit [of e w limit_keys] map_of_limit_dict
        split: option.splits if_splits)
  show ?thesis
    using s b get_garage_status_error_iff [of w g] by auto
qed

subsection \<open>The error flag of a record\<close>

text \<open>
  C7. Every record of a status query, whatever the name queried and the key filter, that has
  a \<^verbatim>\<open>status\<close> and an \<^verbatim>\<open>error\<close> field has a string status and a Boolean flag, the flag
  true exactly when the status is \<^verbatim>\<open>UNKNOWN\<close> or \<^verbatim>\<open>INVALID GARAGE NAME\<close>, and false when
  the status is \<^verbatim>\<open>CLOSED\<close> or \<^verbatim>\<open>OPEN\<close>. Without a filter every record has both fields.
\<close>

theorem status_record_error_flag:
  "\<forall>r \<in> set (status_response e w garage_name limit_keys).
     (limit_keys = None \<longrightarrow> map_of r ''status'' \<noteq> None \<and> map_of r ''error'' \<noteq> None)
     \<and> (\<forall>s b. map_of r ''status'' = Some s \<and> map_of r ''error'' = Some b \<longrightarrow>
          (\<exists>st flag. s = JStr st \<and> b = JBool flag
             \<and> flag = (st = ''UNKNOWN'' \<or> st = ''INVALID GARAGE NAME'')
             \<and> (st = ''CLOSED'' \<or> st = ''OPEN'' \<longrightarrow> \<not> flag)))"
proof
  fix r
  assume "r \<in> set (status_response e w garage_name limit_keys)"
  then obtain j g where r: "r = one_response e w limit_keys j g"
    unfolding status_response_def using status_loop_member by blast
  have present: "limit_keys = None \<longrightarrow> map_of r ''status'' \<noteq> None \<and> map_of r ''error'' \<noteq> None"
    using r one_response_status [of e w j g] one_response_error [of e w j g] by auto
  have flag: "\<forall>s b. map_of r ''status'' = Some s \<and> map_of r ''error'' = Some b \<longrightarrow>
          (\<exists>st flag. s = JStr st \<and> b = JBool flag
             \<and> flag = (st = ''UNKNOWN'' \<or> st = ''INVALID GARAGE NAME'')
             \<and> (st = ''CLOSED'' \<or> st = ''OPEN'' \<longrightarrow> \<not> flag))"
    using r one_response_flag by blast
  show "(limit_keys = None \<longrightarrow> map_of r ''status'' \<noteq> None \<and> map_of r ''error'' \<noteq> None)
     \<and> (\<forall>s b. map_of r ''status'' = Some s \<and> map_of r ''error'' = Some b \<longrightarrow>
          (\<exists>st flag. s = JStr st \<and> b = JBool flag
             \<and> flag = (st = ''UNKNOWN'' \<or> st = ''INVALID GARAGE NAME'')
             \<and> (st = ''CLOSED'' \<or> st = ''OPEN'' \<longrightarrow> \<not> flag)))"
    using present flag by blast
qed

lemma status_response_example:
  "status_response example_env example_world ''ALL'' None =
     [[(''plugin_output'', JStr ''Garage is CLOSED''),
       (''service_description'', JStr ''Left Garage Status''),
       (''hostname'', JStr ''garagepi''),
       (''return_code'', JStr ''0''),
       (''garage_name'', JStr ''LEFT''),
       (''status_time'', JStr ''2020-01-01 10:00:00 AM''),
       (''status'', JStr ''CLOSED''),
       (''error'', JBool False)],
      [(''plugin_output'', JStr ''Garage is OPEN''),
       (''service_description'', JStr ''Right Garage Status''),
       (''hostname'', JStr ''garagepi''),
       (''return_code'', JStr ''2''),
       (''garage_name'', JStr ''RIGHT''),
       (''status_time'', JStr ''2020-01-01 10:00:00 AM''),
       (''status'', JStr ''OPEN''),
       (''error'', JBool False)]]"
  by (simp add: status_response_def SORTED_KEYS_value one_response_def dict_of_def
      get_garage_status_def GARAGE_SENSOR_MAPPING_def limit_dict_def Let_def str_lower_def
      lower_char_def capitalize_def upper_char_def example_env_def example_world_def)

theorem status_record_error_flag_witness:
  "hd (status_response example_env example_world ''ALL'' None)
     \<in> set (status_response example_env example_world ''ALL'' None)
   \<and> map_of (hd (status_response example_env example_world ''ALL'' None)) ''status''
       = Some (JStr ''CLOSED'')
   \<and> map_of (hd (status_response example_env example_world ''ALL'' None)) ''error''
       = Some (JBool False)
   \<and> (\<exists>st flag. JStr ''CLOSED'' = JStr st \<and> JBool False = JBool flag
         \<and> flag = (st = ''UNKNOWN'' \<or> st = ''INVALID GARAGE NAME'')
         \<and> (st = ''CLOSED'' \<or> st = ''OPEN'' \<longrightarrow> \<not> flag))"
proof -
  let ?r = "hd (status_response example_env example_world ''ALL'' None)"
  have mem: "?r \<in> set (status_response example_env example_world ''ALL'' None)"
    by (simp add: status_response_example)
  have s: "map_of ?r ''status'' = Some (JStr ''CLOSED'')"
    by (simp add: status_response_example)
  have b: "map_of ?r ''error'' = Some (JBool False)"
    by (simp add: status_response_example)
  have "\<forall>s b. map_of ?r ''status'' = Some s \<and> map_of ?r ''error'' = Some b \<longrightarrow>
          (\<exists>st flag. s = JStr st \<and> b = JBool flag
             \<and> flag = (st = ''UNKNOWN'' \<or> st = ''INVALID GARAGE NAME'')
             \<and> (st = ''CLOSED'' \<or> st = ''OPEN'' \<longrightarrow> \<not> flag))"
    using mem status_record_error_flag
        [where e = example_env and w = example_world and garage_name = "''ALL''"
           and limit_keys = None]
    by blast
  then show ?thesis
    using mem s b by blast
qed

subsection \<open>All doors, in order\<close>

text \<open>
  C5. A query whose name lower-cases to \<^verbatim>\<open>all\<close> has one record for each key of the registry,
  in the order of \<^verbatim>\<open>SORTED_KEYS\<close>, which is sorted and without duplicates. When the sensor of
  \<^verbatim>\<open>LEFT\<close> (pin 25) reads 0 and the sensor of \<^verbatim>\<open>RIGHT\<close> (pin 16) reads 1, the records are
  \<^verbatim>\<open>LEFT\<close> with return code \<^verbatim>\<open>"0"\<close> and then \<^verbatim>\<open>RIGHT\<close> with return code \<^verbatim>\<open>"2"\<close>. The
  function returns the serialisation of that list.
\<close>

theorem all_doors_in_sorted_order:
  assumes "str_lower garage_name = ''all''"
  shows "get_garage_json_status e w garage_name None
           = json_dumps e (JArr (map JObj (status_response e w garage_name None)))
         \<and> map (\<lambda>r. map_of r ''garage_name'') (status_response e w garage_name None)
             = map (\<lambda>k. Some (JStr k)) SORTED_KEYS
         \<and> sorted SORTED_KEYS \<and> distinct SORTED_KEYS
         \<and> set SORTED_KEYS = fst ` set RELAY_PIN_MAPPING
         \<and> (pins w 25 = 0 \<and> pins w 16 = 1 \<longrightarrow>
             map (\<lambda>r. (map_of r ''garage_name'', map_of r ''return_code''))
                 (status_response e w garage_name None)
               = [(Some (JStr ''LEFT''), Some (JStr ''0'')),
                  (Some (JStr ''RIGHT''), Some (JStr ''2''))])"
  using assms
  by (simp add: get_garage_json_status_def status_response_def SORTED_KEYS_value
      one_response_def dict_of_def get_garage_status_def GARAGE_SENSOR_MAPPING_def
      RELAY_PIN_MAPPING_def limit_dict_def Let_def case_prod_beta)

theorem all_doors_in_sorted_order_witness:
  "str_lower ''ALL'' = ''all'' \<and> pins example_world 25 = 0 \<and> pins example_world 16 = 1
   \<and> map (\<lambda>r. (map_of r ''garage_name'', map_of r ''return_code''))
         (status_response example_env example_world ''ALL'' None)
       = [(Some (JStr ''LEFT''), Some (JStr ''0'')), (Some (JStr ''RIGHT''), Some (JStr ''2''))]"
proof -
  have a: "str_lower ''ALL'' = ''all''"
    by (simp add: str_lower_def lower_char_def)
  have b: "pins example_world 25 = 0 \<and> pins example_world 16 = 1"
    by (simp add: example_world_def)
  show ?thesis
    using a b all_doors_in_sorted_order [OF a, where w = example_world and e = example_env]
    by simp
qed

section \<open>The webhook handler\<close>

text \<open>
  \<^verbatim>\<open>garage_control_json\<close> hands its second argument, named \<^verbatim>\<open>current_status\<close>, to
  \<^verbatim>\<open>control_garage\<close> as the action, and reports the message and the flag it gets back.
\<close>

lemma garage_control_json_forwards:
  "garage_control_json e garage_name current_status None w =
     (json_dumps e
        (JObj [(''status_time'', JStr (clock e 0)),
               (''status'', JStr (fst (fst (control_garage e garage_name current_status w)))),
               (''error'', JBool (snd (fst (control_garage e garage_name current_status w))))]),
      snd (control_garage e garage_name current_status w))"
  by (simp add: garage_control_json_def dict_of_def limit_dict_def case_prod_beta Let_def)

text \<open>
  Every run of \<^verbatim>\<open>process_sns_message\<close> either raises and leaves the world as it was, or
  prints a response that has the key \<^verbatim>\<open>id\<close> and no other.
\<close>

lemma process_sns_message_outcomes:
  "(\<exists>x. process_sns_message e data w = (Inl x, w))
   \<or> (\<exists>i. process_sns_message e data w
           = (Inr (), emit (PrintJson ''TEST publishing {}'' (JObj [(''id'', i)])) w))"
  by (auto simp add: process_sns_message_def or_raise_def Let_def split: sum.splits)

text \<open>
  C6, at a notification with the message id \<^verbatim>\<open>abcdef\<close> and the action type \<^verbatim>\<open>PING\<close>: the
  function returns normally and the response it built is \<^verbatim>\<open>{'id': 'abcd'}\<close>, the truncated
  id alone, with no status; the status went to \<^verbatim>\<open>return_message\<close>, which is dropped. At the
  same notification with the action type \<^verbatim>\<open>STATUS\<close> and the door \<^verbatim>\<open>LEFT\<close>, reading
  \<^verbatim>\<open>response_keys\<close> raises \<^verbatim>\<open>NameError\<close> and no response is built.
\<close>

theorem process_sns_message_reply_without_status:
  \<open>process_sns_message example_env
      (JObj [(''Type'', JStr ''Notification''), (''MessageId'', JStr ''abcdef''),
             (''Message'', JStr ''{"type": "PING", "garage_name": "LEFT"}'')])
      example_world
    = (Inr (),
       example_world\<lparr>trace :=
         [PrintJson ''TEST publishing {}'' (JObj [(''id'', JStr ''abcd'')])]\<rparr>)
   \<and> process_sns_message example_env
      (JObj [(''Type'', JStr ''Notification''), (''MessageId'', JStr ''abcdef''),
             (''Message'', JStr ''{"type": "STATUS", "garage_name": "LEFT"}'')])
      example_world
    = (Inl (NameError ''response_keys''), example_world)\<close>
  by (simp add: process_sns_message_def or_raise_def subscript_def slice4_def
      example_env_def example_world_def emit_def)

text \<open>
  C9, at a notification with the action type \<^verbatim>\<open>CONTROL\<close>, the door \<^verbatim>\<open>LEFT\<close> and
  \<^verbatim>\<open>current_status\<close> \<^verbatim>\<open>OPEN\<close>: reading \<^verbatim>\<open>response_keys\<close> raises \<^verbatim>\<open>NameError\<close> while the
  arguments of \<^verbatim>\<open>garage_control_json\<close> are evaluated, so the control operation is not
  called, the world is as before and no status string is computed.
\<close>

theorem process_sns_message_control_raises:
  \<open>process_sns_message example_env
      (JObj [(''Type'', JStr ''Notification''), (''MessageId'', JStr ''abcdef''),
             (''Message'',
              JStr ''{"type": "CONTROL", "garage_name": "LEFT", "current_status": "OPEN"}'')])
      example_world
    = (Inl (NameError ''response_keys''), example_world)\<close>
  by (simp add: process_sns_message_def or_raise_def subscript_def example_env_def)

subsection \<open>A body that does not decode\<close>

text \<open>
  C8, as amended. When the request body fails to decode as UTF-8, or decodes and fails to
  parse as JSON, \<^verbatim>\<open>post\<close> does not raise: it prints the exception and the body, does nothing
  else, and returns the text \<^verbatim>\<open>OK\<close> followed by a line feed.
\<close>

theorem post_body_decode_failure_swallowed:
  assumes "decode_utf8 e request_data = Inl x
           \<or> (\<exists>s. decode_utf8 e request_data = Inr s \<and> json_loads e s = Inl x)"
  shows "post e request_data w =
           (Inr (''OK'' @ [CHR 0x0A]),
            emit (PrintBytes ''exception parsing {}'' request_data) (emit (PrintExc x) w))"
  using assms by (auto simp add: post_def)

theorem post_body_decode_failure_swallowed_witness:
  "decode_utf8 example_env [CHR 0xFF] = Inl UnicodeDecodeError
   \<and> post example_env [CHR 0xFF] example_world =
       (Inr (''OK'' @ [CHR 0x0A]),
        example_world\<lparr>trace :=
          [PrintExc UnicodeDecodeError, PrintBytes ''exception parsing {}'' [CHR 0xFF]]\<rparr>)
   \<and> decode_utf8 example_env ''not json'' = Inr ''not json''
   \<and> json_loads example_env ''not json'' = Inl JSONDecodeError
   \<and> post example_env ''not json'' example_world =
       (Inr (''OK'' @ [CHR 0x0A]),
        example_world\<lparr>trace :=
          [PrintExc JSONDecodeError, PrintBytes ''exception parsing {}'' ''not json'']\<rparr>)"
proof -
  have a: "decode_utf8 example_env [CHR 0xFF] = Inl UnicodeDecodeError"
    by (simp add: example_env_def)
  have b: "decode_utf8 example_env ''not json'' = Inr ''not json''"
    by (simp add: example_env_def)
  have c: "json_loads example_env ''not json'' = Inl JSONDecodeError"
    by (simp add: example_env_def)
  show ?thesis
    using a b c
      post_body_decode_failure_swallowed
        [where e = example_env and request_data = "[CHR 0xFF]" and x = UnicodeDecodeError
           and w = example_world]
      post_body_decode_failure_swallowed
        [where e = example_env and request_data = "''not json''" and x = JSONDecodeError
           and w = example_world]
    by (simp add: emit_def example_world_def)
qed

text \<open>
  C8 as stated fails twice. The text returned for the body \<^verbatim>\<open>not json\<close>, which does not
  parse, is not \<^verbatim>\<open>OK\<close>: it has a line feed after it. And a body that parses to a
  notification whose \<^verbatim>\<open>Message\<close> is not JSON makes \<^verbatim>\<open>json.loads\<close> raise inside
  \<^verbatim>\<open>process_sns_message\<close>, outside the \<^verbatim>\<open>try\<close>: the decode error leaves the handler.
\<close>

theorem post_decode_failure_counterexample:
  \<open>json_loads example_env ''not json'' = Inl JSONDecodeError
   \<and> fst (post example_env ''not json'' example_world) \<noteq> Inr ''OK''
   \<and> post example_env
        ''{"Type": "Notification", "MessageId": "abcdef", "Message": "{bad"}''
        example_world =
       (Inl JSONDecodeError,
        example_world\<lparr>trace :=
          [PrintJson ''Message is {}''
             (JObj [(''Type'', JStr ''Notification''), (''MessageId'', JStr ''abcdef''),
                    (''Message'', JStr ''{bad'')])]\<rparr>)\<close>
  by (simp add: post_def process_sns_message_def or_raise_def subscript_def has_key_def
      example_env_def example_world_def emit_def)

end
